theory Spec2Isabelle
  imports Complex_Main "HOL-Library.Multiset"
begin

section \<open>Conventions of the embedding\<close>

text \<open>
  The development embeds the retrieval pipeline of the repository: the vector store of
  \<^verbatim>\<open>backend/db.py\<close>, the embedding service of \<^verbatim>\<open>backend/embeddings.py\<close> and the
  pipeline of \<^verbatim>\<open>backend/rag_pipeline.py\<close>.

  \<^item> A float of the store or of the pipeline (a distance, a similarity, a threshold, a
    confidence) is a \<open>float8\<close>: a number or NaN. Arithmetic on them rounds to the nearest
    double, ties to even (\<open>rnd64\<close>); the exponent range is not bounded, so overflow,
    underflow and infinities are outside the model. The components of an embedding and
    the in-process cosine similarity of the embedding service are exact reals.
  \<^item> Every exception of the source is a value of \<open>error\<close>; a function that can raise
    returns \<open>error + 'a\<close> with \<open>Inl\<close> for the raise.
  \<^item> A Python value stored in a metadata dictionary is a \<open>json\<close> scalar, and a
    dictionary is a map from keys to such values.
  \<^item> A Python string is a list of characters, and \<^verbatim>\<open>len\<close> is its length.
  \<^item> Mutation is explicit state passing: an operation that writes takes the session and
    returns the new one. Log output is not part of the model.
\<close>

datatype error =
    ValueError          \<comment> \<open>numpy shape mismatch, pgvector dimension check, splitter configuration\<close>
  | OperationalError    \<comment> \<open>the database cannot be reached\<close>
  | DataError           \<comment> \<open>the database rejects a statement's parameter\<close>
  | IntegrityError      \<comment> \<open>a column constraint is violated\<close>
  | ProviderError       \<comment> \<open>the embedding or chat model call failed\<close>
  | KeyError            \<comment> \<open>a dictionary has no entry for the key\<close>
  | ZeroDivisionError   \<comment> \<open>a Python division by zero\<close>
  | ZeroDivisor         \<comment> \<open>a numpy float division whose divisor is zero\<close>

datatype json = JNull | JInt int | JStr string

type_synonym metadata = "string \<rightharpoonup> json"

type_synonym vector = "real list"

section \<open>Floats\<close>

text \<open>
  A double is a number or NaN. The order of the type is the one PostgreSQL sorts and
  compares \<^verbatim>\<open>float8\<close> values by: numbers by value, NaN equal to NaN and greater than
  every number.
\<close>

datatype float8 = Num real | NaN

instantiation float8 :: linorder
begin

definition less_eq_float8 :: "float8 \<Rightarrow> float8 \<Rightarrow> bool" where
  "less_eq_float8 a b =
     (case b of NaN \<Rightarrow> True | Num y \<Rightarrow> (case a of NaN \<Rightarrow> False | Num x \<Rightarrow> x \<le> y))"

definition less_float8 :: "float8 \<Rightarrow> float8 \<Rightarrow> bool" where
  "less_float8 a b = (a \<le> b \<and> \<not> b \<le> (a :: float8))"

instance
  by standard (auto simp: less_eq_float8_def less_float8_def split: float8.splits)

end

text \<open>
  Python (IEEE 754) comparisons: a comparison with NaN is false.
\<close>

definition flt :: "float8 \<Rightarrow> float8 \<Rightarrow> bool" where
  "flt a b = (case (a, b) of (Num x, Num y) \<Rightarrow> x < y | _ \<Rightarrow> False)"



text \<open>
  Rounding to the nearest double, ties to even: a non-zero \<open>x\<close> lies in the binade
  \<open>[2^e, 2^(e+1))\<close> with \<open>e = binade x\<close>, where doubles are the multiples of
  \<open>2^(e - 52)\<close>.
\<close>

definition round_half_even :: "real \<Rightarrow> int" where
  "round_half_even x =
     (let f = \<lfloor>x\<rfloor>
      in if x - of_int f < 1 / 2 then f
         else if x - of_int f > 1 / 2 then f + 1
         else if even f then f else f + 1)"

definition binade :: "real \<Rightarrow> int" where
  "binade x = \<lfloor>log 2 \<bar>x\<bar>\<rfloor>"

definition rnd64 :: "real \<Rightarrow> real" where
  "rnd64 x =
     (if x = 0 then 0
      else of_int (round_half_even (x / 2 powi (binade x - 52))) * 2 powi (binade x - 52))"

text \<open>The double a decimal literal such as \<^verbatim>\<open>0.7\<close> denotes.\<close>

definition double :: "real \<Rightarrow> float8" where
  "double x = Num (rnd64 x)"

definition fadd :: "float8 \<Rightarrow> float8 \<Rightarrow> float8" where
  "fadd a b = (case (a, b) of (Num x, Num y) \<Rightarrow> Num (rnd64 (x + y)) | _ \<Rightarrow> NaN)"

definition fsub :: "float8 \<Rightarrow> float8 \<Rightarrow> float8" where
  "fsub a b = (case (a, b) of (Num x, Num y) \<Rightarrow> Num (rnd64 (x - y)) | _ \<Rightarrow> NaN)"

text \<open>Division of a float by a positive count.\<close>

definition fdiv :: "float8 \<Rightarrow> nat \<Rightarrow> float8" where
  "fdiv a n = (case a of Num x \<Rightarrow> Num (rnd64 (x / real n)) | NaN \<Rightarrow> NaN)"

text \<open>
  Python's \<^verbatim>\<open>sum\<close> of floats starts from 0 and adds from left to right (CPython up to
  3.11), and \<^verbatim>\<open>min(a, b)\<close> is \<open>b\<close> when \<open>b < a\<close> and \<open>a\<close> otherwise.
\<close>

definition py_sum :: "float8 list \<Rightarrow> float8" where
  "py_sum xs = foldl fadd (Num 0) xs"

definition py_min :: "float8 \<Rightarrow> float8 \<Rightarrow> float8" where
  "py_min a b = (if flt b a then b else a)"

section \<open>Embedding service: in-process cosine similarity\<close>





section \<open>Vector store\<close>

text \<open>
  The table \<^verbatim>\<open>documents\<close> of \<^verbatim>\<open>backend/db.py\<close>. The columns a search result carries
  form the record \<open>row\<close>; a stored \<open>document\<close> adds the embedding, a search result
  (\<open>similar_document\<close>) adds the similarity. The two timestamp columns play no part in
  what follows and are left out.
\<close>

record row =
  doc_id :: nat
  filename :: string
  content :: string
  doc_metadata :: metadata

record document = row +
  embedding :: vector

record similar_document = row +
  similarity :: float8

text \<open>
  A database session: whether statements reach the server, the rows of the table in the
  order a sequential scan reads them, and the next value of the \<^verbatim>\<open>id\<close> sequence.
\<close>

record session =
  connected :: bool
  documents :: "document list"
  next_id :: nat

text \<open>
  What the source asks of PostgreSQL with pgvector: the cosine distance operator
  \<^verbatim>\<open><=>\<close>, which yields a \<^verbatim>\<open>float8\<close>, and the sort behind
  \<^verbatim>\<open>ORDER BY ... LIMIT\<close>, which is told the limit. SQL fixes the result only up to the
  order of rows with equal keys, so the sort is a parameter together with the contract
  every conforming sort meets: up to the limit, its result is a prefix of an arrangement
  of the rows in which the keys ascend.
\<close>

record engine =
  cosine_distance :: "vector \<Rightarrow> vector \<Rightarrow> float8"
  order_by :: "(document \<Rightarrow> float8) \<Rightarrow> nat \<Rightarrow> document list \<Rightarrow> document list"

definition sql_order_by :: "engine \<Rightarrow> bool" where
  "sql_order_by pg \<longleftrightarrow>
     (\<forall>key bound rows. \<exists>arranged.
        mset arranged = mset rows \<and> sorted (map key arranged) \<and>
        take bound (order_by pg key bound rows) = take bound arranged)"

text \<open>The declared dimension of the embedding column, \<^verbatim>\<open>Vector(1536)\<close>.\<close>

definition EMBEDDING_DIM :: nat where
  "EMBEDDING_DIM = 1536"

text \<open>
  The statement of \<^verbatim>\<open>get_similar_documents\<close>:
  \<^verbatim>\<open>SELECT ..., 1 - (embedding <=> :embedding) AS similarity FROM documents
   WHERE 1 - (embedding <=> :embedding) > :threshold
   ORDER BY embedding <=> :embedding LIMIT :limit\<close>.
  The server rejects it when it cannot be reached, when the vector literal is empty, when
  the limit is negative, and when a row's embedding and the query differ in dimension.
  The comparison of the \<^verbatim>\<open>WHERE\<close> clause and the sort use PostgreSQL's order of
  \<^verbatim>\<open>float8\<close>, in which NaN is greater than every number.
\<close>

definition similarity_query ::
  "engine \<Rightarrow> session \<Rightarrow> vector \<Rightarrow> int \<Rightarrow> float8 \<Rightarrow> error + (document \<times> float8) list" where
  "similarity_query pg db query_embedding limit threshold =
     (if \<not> connected db then Inl OperationalError
      else if query_embedding = [] then Inl DataError
      else if limit < 0 then Inl DataError
      else if \<exists>d \<in> set (documents db). length (embedding d) \<noteq> length query_embedding
        then Inl DataError
      else Inr (map (\<lambda>d. (d, fsub (Num 1) (cosine_distance pg (embedding d) query_embedding)))
             (take (nat limit)
               (order_by pg (\<lambda>d. cosine_distance pg (embedding d) query_embedding) (nat limit)
                 (filter
                   (\<lambda>d. fsub (Num 1) (cosine_distance pg (embedding d) query_embedding)
                          > threshold)
                   (documents db))))))"

definition row_dict :: "document \<times> float8 \<Rightarrow> similar_document" where
  "row_dict r =
     (case r of (d, s) \<Rightarrow>
        \<lparr>doc_id = doc_id d, filename = filename d, content = content d,
         doc_metadata = doc_metadata d, similarity = s\<rparr>)"

text \<open>Any exception of the search is logged and an empty list is returned.\<close>

definition get_similar_documents ::
  "engine \<Rightarrow> session \<Rightarrow> vector \<Rightarrow> int \<Rightarrow> float8 \<Rightarrow> similar_document list" where
  "get_similar_documents pg db query_embedding limit similarity_threshold =
     (case similarity_query pg db query_embedding limit similarity_threshold of
        Inl e \<Rightarrow> []
      | Inr result \<Rightarrow> map row_dict result)"

text \<open>
  The value bound to the \<^verbatim>\<open>filename\<close> column, which is declared \<^verbatim>\<open>String\<close> and
  \<^verbatim>\<open>nullable=False\<close>: a string is stored as it is, an integer as its decimal text, and
  \<^verbatim>\<open>None\<close> violates the constraint.
\<close>

fun decimal :: "nat \<Rightarrow> string" where
  "decimal n =
     (if n < 10 then [''0123456789'' ! n]
      else decimal (n div 10) @ [''0123456789'' ! (n mod 10)])"

definition str_of_int :: "int \<Rightarrow> string" where
  "str_of_int i = (if i < 0 then ''-'' @ decimal (nat (- i)) else decimal (nat i))"

definition column_text :: "json \<Rightarrow> error + string" where
  "column_text v =
     (case v of
        JNull \<Rightarrow> Inl IntegrityError
      | JInt i \<Rightarrow> Inr (str_of_int i)
      | JStr s \<Rightarrow> Inr s)"

text \<open>
  \<^verbatim>\<open>db.add(document); db.commit(); db.refresh(document)\<close>: the insert of one record. It
  raises when the server cannot be reached, when the filename is null, and when the
  embedding does not have the column's dimension; nothing is written then.
\<close>

definition insert_document ::
  "session \<Rightarrow> json \<Rightarrow> string \<Rightarrow> vector \<Rightarrow> metadata \<Rightarrow> error + (nat \<times> session)" where
  "insert_document db fname text emb meta =
     (if \<not> connected db then Inl OperationalError
      else case column_text fname of
        Inl e \<Rightarrow> Inl e
      | Inr name \<Rightarrow>
          if length emb \<noteq> EMBEDDING_DIM then Inl ValueError
          else Inr (next_id db,
                 db\<lparr>documents := documents db @
                        [\<lparr>doc_id = next_id db, filename = name, content = text,
                          doc_metadata = meta, embedding = emb\<rparr>],
                    next_id := next_id db + 1\<rparr>))"

text \<open>
  \<^verbatim>\<open>store_document\<close> returns the new id, or \<^verbatim>\<open>None\<close> after
  \<^verbatim>\<open>db.rollback()\<close> when the insert raised.
\<close>

definition store_document ::
  "session \<Rightarrow> json \<Rightarrow> string \<Rightarrow> vector \<Rightarrow> metadata option \<Rightarrow> nat option \<times> session" where
  "store_document db fname text emb meta =
     (case insert_document db fname text emb (case meta of None \<Rightarrow> Map.empty | Some m \<Rightarrow> m) of
        Inl e \<Rightarrow> (None, db)
      | Inr (new_id, db') \<Rightarrow> (Some new_id, db'))"

section \<open>Embedding service: chunking and document processing\<close>

text \<open>
  The collaborators outside the repository: the embedding model (one text, or a batch),
  the chat model, and the splitting algorithm of \<^verbatim>\<open>RecursiveCharacterTextSplitter\<close> for a
  configuration its constructor has accepted (a total function of chunk size, overlap and
  text).
\<close>

record services =
  embed_query :: "string \<Rightarrow> error + vector"
  embed_documents :: "string list \<Rightarrow> error + vector list"
  split_text :: "int \<Rightarrow> int \<Rightarrow> string \<Rightarrow> string list"
  llm_invoke :: "string \<Rightarrow> error + string"

definition generate_embedding :: "services \<Rightarrow> string \<Rightarrow> error + vector" where
  "generate_embedding svc text = embed_query svc text"

definition generate_embeddings_batch :: "services \<Rightarrow> string list \<Rightarrow> error + vector list" where
  "generate_embeddings_batch svc texts = embed_documents svc texts"

text \<open>
  \<^verbatim>\<open>chunk_text\<close> has no check of its own; the only validation of the two sizes is the one
  of the splitter's constructor (\<^verbatim>\<open>TextSplitter.__init__\<close> of
  \<^verbatim>\<open>langchain_text_splitters\<close>), which raises \<^verbatim>\<open>ValueError\<close> for a chunk size that is
  not positive, for a negative overlap, and for an overlap larger than the chunk size.
\<close>

definition text_splitter_init :: "int \<Rightarrow> int \<Rightarrow> error + int \<times> int" where
  "text_splitter_init chunk_size chunk_overlap =
     (if chunk_size \<le> 0 then Inl ValueError
      else if chunk_overlap < 0 then Inl ValueError
      else if chunk_overlap > chunk_size then Inl ValueError
      else Inr (chunk_size, chunk_overlap))"

definition chunk_text :: "services \<Rightarrow> string \<Rightarrow> int \<Rightarrow> int \<Rightarrow> error + string list" where
  "chunk_text svc text chunk_size chunk_overlap =
     (case text_splitter_init chunk_size chunk_overlap of
        Inl e \<Rightarrow> Inl e
      | Inr (csize, coverlap) \<Rightarrow> Inr (split_text svc csize coverlap text))"

record chunk_data =
  chunk_content :: string
  chunk_embedding :: vector
  chunk_metadata :: metadata

definition default_metadata :: "string \<Rightarrow> nat \<Rightarrow> nat \<Rightarrow> string \<Rightarrow> metadata" where
  "default_metadata fname i n_chunks chunk =
     [''filename'' \<mapsto> JStr fname,
      ''chunk_index'' \<mapsto> JInt (int i),
      ''total_chunks'' \<mapsto> JInt (int n_chunks),
      ''chunk_size'' \<mapsto> JInt (int (length chunk))]"

definition process_document :: "services \<Rightarrow> string \<Rightarrow> string \<Rightarrow> error + chunk_data list" where
  "process_document svc text fname =
     (case chunk_text svc text 1000 200 of
        Inl e \<Rightarrow> Inl e
      | Inr chunks \<Rightarrow>
          (case generate_embeddings_batch svc chunks of
             Inl e \<Rightarrow> Inl e
           | Inr embeddings \<Rightarrow>
               Inr (map (\<lambda>(i, chunk, emb).
                          \<lparr>chunk_content = chunk, chunk_embedding = emb,
                           chunk_metadata = default_metadata fname i (length chunks) chunk\<rparr>)
                     (enumerate 0 (zip chunks embeddings)))))"

section \<open>Pipeline: ingestion and deletion\<close>

text \<open>
  The loop of \<^verbatim>\<open>process_and_store_document\<close>. \<^verbatim>\<open>chunk_metadata\<close> is the very dictionary
  held by \<^verbatim>\<open>chunk_data\<close>, so \<^verbatim>\<open>chunk_metadata.update(metadata)\<close> changes
  \<^verbatim>\<open>chunk_data["metadata"]\<close> in place, and the filename handed to \<^verbatim>\<open>store_document\<close> is
  read from the dictionary after the update. (An empty \<^verbatim>\<open>metadata\<close> skips the update,
  which would change nothing.) The result of \<^verbatim>\<open>store_document\<close> is not looked at.
\<close>

fun store_chunks :: "session \<Rightarrow> metadata option \<Rightarrow> chunk_data list \<Rightarrow> error option \<times> session" where
  "store_chunks db meta [] = (None, db)"
| "store_chunks db meta (chunk_data # rest) =
     (let updated = (case meta of
                       None \<Rightarrow> chunk_data
                     | Some m \<Rightarrow> chunk_data\<lparr>chunk_metadata := chunk_metadata chunk_data ++ m\<rparr>)
      in case chunk_metadata updated ''filename'' of
           None \<Rightarrow> (Some KeyError, db)
         | Some fname \<Rightarrow>
             store_chunks
               (snd (store_document db fname (chunk_content updated) (chunk_embedding updated)
                      (Some (chunk_metadata updated))))
               meta rest)"

definition process_and_store_document ::
  "services \<Rightarrow> session \<Rightarrow> string \<Rightarrow> string \<Rightarrow> metadata option \<Rightarrow> bool \<times> session" where
  "process_and_store_document svc db text fname meta =
     (case process_document svc text fname of
        Inl e \<Rightarrow> (False, db)
      | Inr processed_chunks \<Rightarrow>
          (case store_chunks db meta processed_chunks of
             (None, db') \<Rightarrow> (True, db')
           | (Some e, db') \<Rightarrow> (False, db')))"

text \<open>
  \<^verbatim>\<open>RAGPipeline.delete_document\<close>: query the chunks of the filename, delete each, commit,
  return \<^verbatim>\<open>True\<close>; \<^verbatim>\<open>False\<close> when an exception was caught. Unlike
  \<^verbatim>\<open>summarize_document\<close>, which runs the same query, it does not look whether the query
  found a chunk.
\<close>

definition delete_document :: "session \<Rightarrow> string \<Rightarrow> bool \<times> session" where
  "delete_document db fname =
     (if \<not> connected db then (False, db)
      else (True, db\<lparr>documents := filter (\<lambda>d. filename d \<noteq> fname) (documents db)\<rparr>))"

section \<open>Pipeline: question answering\<close>

record source =
  source_filename :: string
  source_content :: string
  source_similarity :: float8

record response =
  answer :: string
  sources :: "source list"
  confidence :: float8
  err :: "error option"

fun join :: "string \<Rightarrow> string list \<Rightarrow> string" where
  "join sep [] = []"
| "join sep [x] = x"
| "join sep (x # y # ys) = x @ sep @ join sep (y # ys)"

definition indent :: string where
  "indent = replicate 12 CHR '' ''"

definition build_prompt :: "string \<Rightarrow> string \<Rightarrow> string" where
  "build_prompt context question =
     [CHR 0x0A] @ indent @
     ''Based on the following context, please answer the question. '' @
     ''If the answer cannot be found in the context, say '' @
     [CHR 0x22] @ ''I don'' @ [CHR 0x27] @
     ''t have enough information to answer this question.'' @ [CHR 0x22] @
     [CHR 0x0A, CHR 0x0A] @ indent @ ''Context:'' @
     [CHR 0x0A] @ indent @ context @
     [CHR 0x0A, CHR 0x0A] @ indent @ ''Question: '' @ question @
     [CHR 0x0A, CHR 0x0A] @ indent @ ''Answer:'' @
     [CHR 0x0A] @ indent"

definition no_information_response :: response where
  "no_information_response =
     \<lparr>answer = ''I couldn'' @ [CHR 0x27] @
                ''t find any relevant information to answer your question.'',
      sources = [], confidence = Num 0, err = None\<rparr>"

definition error_response :: "error \<Rightarrow> response" where
  "error_response e =
     \<lparr>answer = ''I encountered an error while processing your question.'',
      sources = [], confidence = Num 0, err = Some e\<rparr>"

definition source_of :: "similar_document \<Rightarrow> source" where
  "source_of doc =
     \<lparr>source_filename = filename doc,
      source_content = (if length (content doc) > 200 then take 200 (content doc) @ ''...''
                        else content doc),
      source_similarity = similarity doc\<rparr>"

text \<open>
  \<^verbatim>\<open>avg_similarity = sum(doc["similarity"] for doc in similar_docs) / len(similar_docs)\<close>
  and \<^verbatim>\<open>confidence = min(avg_similarity, 1.0)\<close>. The division raises for an empty list;
  \<^verbatim>\<open>answer_question\<close> reaches it with a non-empty one only.
\<close>

definition avg_similarity :: "similar_document list \<Rightarrow> error + float8" where
  "avg_similarity similar_docs =
     (if length similar_docs = 0 then Inl ZeroDivisionError
      else Inr (fdiv (py_sum (map similarity similar_docs)) (length similar_docs)))"

definition calc_confidence :: "similar_document list \<Rightarrow> error + float8" where
  "calc_confidence similar_docs =
     (case avg_similarity similar_docs of
        Inl e \<Rightarrow> Inl e
      | Inr avg \<Rightarrow> Inr (py_min avg (Num 1)))"

text \<open>
  \<^verbatim>\<open>answer_question\<close> returns the response together with the prompts it sent to the chat
  model, in order: the second component is empty exactly when the model was not invoked.
  The search runs with the default threshold of \<^verbatim>\<open>get_similar_documents\<close>, the double
  \<^verbatim>\<open>0.7\<close>. Every exception is caught and becomes the error response.
\<close>

definition answer_question ::
  "services \<Rightarrow> engine \<Rightarrow> session \<Rightarrow> string \<Rightarrow> int \<Rightarrow> response \<times> string list" where
  "answer_question svc pg db question top_k =
     (case generate_embedding svc question of
        Inl e \<Rightarrow> (error_response e, [])
      | Inr query_embedding \<Rightarrow>
          (let similar_docs = get_similar_documents pg db query_embedding top_k (double (7 / 10))
           in if similar_docs = [] then (no_information_response, [])
              else
                (let context = join [CHR 0x0A, CHR 0x0A] (map content similar_docs);
                     prompt = build_prompt context question
                 in case llm_invoke svc prompt of
                      Inl e \<Rightarrow> (error_response e, [prompt])
                    | Inr text \<Rightarrow>
                        (case calc_confidence similar_docs of
                           Inl e \<Rightarrow> (error_response e, [prompt])
                         | Inr conf \<Rightarrow>
                             (\<lparr>answer = text, sources = map source_of similar_docs,
                               confidence = conf, err = None\<rparr>,
                              [prompt])))))"

section \<open>Reference engine: PostgreSQL with pgvector\<close>

text \<open>
  The cosine distance of pgvector: the quotient of the dot product by the root of the
  product of the squared norms is 0/0, hence NaN, when a vector is zero; otherwise the
  distance is 1 minus the quotient kept within [-1, 1]. The quotient is taken exactly
  here (pgvector accumulates in single precision); the instances below use vectors for
  which this makes no difference.
\<close>

definition pgvector_cosine_distance :: "vector \<Rightarrow> vector \<Rightarrow> float8" where
  "pgvector_cosine_distance a b =
     (let dot = (\<Sum>(x, y) \<leftarrow> zip a b. x * y);
          norma = (\<Sum>x \<leftarrow> a. x * x);
          normb = (\<Sum>y \<leftarrow> b. y * y)
      in if norma * normb = 0 then NaN
         else Num (rnd64 (1 - max (- 1) (min 1 (dot / sqrt (norma * normb))))))"

text \<open>
  The sort of PostgreSQL's \<^verbatim>\<open>tuplesort.c\<close> with a bound (the plan is a limit over a sort
  over a sequential scan). Once more than twice the bound of rows have arrived the sort
  keeps a heap of the \<open>bound\<close> smallest rows, the largest at the root:
  \<^verbatim>\<open>tuplesort_heap_insert\<close> (\<open>heap_insert\<close>) while the heap is not full, then discard or
  \<^verbatim>\<open>tuplesort_heap_replace_top\<close> (\<open>sift_down\<close>); \<^verbatim>\<open>sort_bounded_heap\<close> unheapifies in
  place. With at most twice the bound of rows it sorts the array; for fewer than seven
  rows that is an insertion sort, which is what \<open>sort_key\<close> is (the partitioning of
  larger arrays is not modelled).
\<close>

function sift_up :: "('a \<Rightarrow> float8) \<Rightarrow> 'a list \<Rightarrow> 'a \<Rightarrow> nat \<Rightarrow> 'a list" where
  "sift_up key memtuples tuple j =
     (if j = 0 then memtuples[j := tuple]
      else (let i = (j - 1) div 2
            in if key tuple \<le> key (memtuples ! i) then memtuples[j := tuple]
               else sift_up key (memtuples[j := memtuples ! i]) tuple i))"
  by pat_completeness auto
termination
  by (relation "measure (\<lambda>(key, memtuples, tuple, j). j)") auto

definition heap_insert :: "('a \<Rightarrow> float8) \<Rightarrow> 'a list \<Rightarrow> 'a \<Rightarrow> 'a list" where
  "heap_insert key memtuples tuple = sift_up key (memtuples @ [tuple]) tuple (length memtuples)"

function sift_down :: "('a \<Rightarrow> float8) \<Rightarrow> 'a list \<Rightarrow> 'a \<Rightarrow> nat \<Rightarrow> nat \<Rightarrow> 'a list" where
  "sift_down key memtuples tuple n i =
     (let j = 2 * i + 1
      in if j \<ge> n then memtuples[i := tuple]
         else (let k = (if j + 1 < n \<and> key (memtuples ! j) < key (memtuples ! (j + 1))
                        then j + 1 else j)
               in if key (memtuples ! k) \<le> key tuple then memtuples[i := tuple]
                  else sift_down key (memtuples[i := memtuples ! k]) tuple n k))"
  by pat_completeness auto
termination
  by (relation "measure (\<lambda>(key, memtuples, tuple, n, i). n - i)") (auto simp: Let_def)

definition put_bounded :: "('a \<Rightarrow> float8) \<Rightarrow> nat \<Rightarrow> 'a list \<Rightarrow> 'a \<Rightarrow> 'a list" where
  "put_bounded key bound memtuples tuple =
     (if length memtuples < bound then heap_insert key memtuples tuple
      else if key (memtuples ! 0) \<le> key tuple then memtuples
      else sift_down key memtuples tuple (length memtuples) 0)"

function sort_bounded_heap :: "('a \<Rightarrow> float8) \<Rightarrow> 'a list \<Rightarrow> nat \<Rightarrow> 'a list" where
  "sort_bounded_heap key memtuples memtupcount =
     (if memtupcount \<le> 1 then memtuples
      else (let stup = memtuples ! 0;
                n = memtupcount - 1
            in sort_bounded_heap key
                 ((sift_down key memtuples (memtuples ! n) n 0)[n := stup]) n))"
  by pat_completeness auto
termination
  by (relation "measure (\<lambda>(key, memtuples, memtupcount). memtupcount)") auto

definition tuplesort :: "('a \<Rightarrow> float8) \<Rightarrow> nat \<Rightarrow> 'a list \<Rightarrow> 'a list" where
  "tuplesort key bound rows =
     (if bound = 0 then []
      else if length rows > 2 * bound
        then (let heap = foldl (put_bounded key bound) [] rows
              in sort_bounded_heap key heap (length heap))
      else sort_key key rows)"

definition postgres :: engine where
  "postgres = \<lparr>cosine_distance = pgvector_cosine_distance, order_by = tuplesort\<rparr>"

section \<open>Reference instances\<close>

text \<open>
  A second engine, whose sort is the insertion sort whatever the bound; embeddings of
  the column's dimension; and services that split a text into the one chunk it is and
  embed every text as the same unit vector.
\<close>

definition pg_stable :: engine where
  "pg_stable =
     \<lparr>cosine_distance = pgvector_cosine_distance,
      order_by = (\<lambda>key bound rows. sort_key key rows)\<rparr>"

definition unit_vector :: vector where
  "unit_vector = 1 # 0 # replicate 1534 0"

definition orthogonal_vector :: vector where
  "orthogonal_vector = 0 # 1 # replicate 1534 0"

definition zero_vector :: vector where
  "zero_vector = 0 # 0 # replicate 1534 0"

definition simple_services :: services where
  "simple_services =
     \<lparr>embed_query = (\<lambda>text. Inr unit_vector),
      embed_documents = (\<lambda>texts. Inr (map (\<lambda>t. unit_vector) texts)),
      split_text = (\<lambda>chunk_size chunk_overlap text. [text]),
      llm_invoke = (\<lambda>prompt. Inr ''ok'')\<rparr>"

definition failing_provider :: services where
  "failing_provider = simple_services\<lparr>embed_query := (\<lambda>text. Inl ProviderError)\<rparr>"

text \<open>
  Stores reached from the empty one by the repository's own write operations:
  \<open>sample_db\<close> holds three chunks at similarity 0, 0 and 1 to \<open>unit_vector\<close>, in that
  order of insertion; \<open>tie_db\<close> holds two ingested documents whose chunks have the same
  embedding, \<open>five_tied_db\<close> five of them; \<open>unreachable_db\<close> is \<open>tie_db\<close> with the
  connection lost; \<open>zero_row_db\<close> holds one chunk whose embedding is the zero vector.
\<close>

definition empty_db :: session where
  "empty_db = \<lparr>connected = True, documents = [], next_id = 1\<rparr>"

definition sample_db :: session where
  "sample_db =
     snd (store_document
       (snd (store_document
         (snd (store_document empty_db (JStr ''c.txt'') ''gamma'' orthogonal_vector None))
         (JStr ''b.txt'') ''beta'' orthogonal_vector None))
       (JStr ''a.txt'') ''alpha'' unit_vector None)"

definition tie_db :: session where
  "tie_db =
     snd (process_and_store_document simple_services
       (snd (process_and_store_document simple_services empty_db ''first'' ''a.txt'' None))
       ''second'' ''b.txt'' None)"

definition five_tied_db :: session where
  "five_tied_db =
     snd (process_and_store_document simple_services
       (snd (process_and_store_document simple_services
         (snd (process_and_store_document simple_services tie_db ''third'' ''c.txt'' None))
         ''fourth'' ''d.txt'' None))
       ''fifth'' ''e.txt'' None)"

definition unreachable_db :: session where
  "unreachable_db = tie_db\<lparr>connected := False\<rparr>"



declare sift_up.simps [simp del]

declare sift_down.simps [simp del]

declare sort_bounded_heap.simps [simp del]

declare decimal.simps [simp del]

section \<open>Facts about rounding and the order of floats\<close>

lemma float8_le [simp]:
  "Num x \<le> Num y \<longleftrightarrow> x \<le> y" "Num x \<le> NaN" "NaN \<le> Num y \<longleftrightarrow> False" "NaN \<le> NaN"
  by (simp_all add: less_eq_float8_def)

lemma float8_less [simp]:
  "Num x < Num y \<longleftrightarrow> x < y" "Num x < NaN" "NaN < Num y \<longleftrightarrow> False" "NaN < NaN \<longleftrightarrow> False"
  by (auto simp: less_float8_def)




lemma powr_powi: "(2::real) powr (of_int k) = 2 powi k"
  by (simp add: powr_real_of_int')


lemma binade_unique:
  assumes "2 powi e \<le> \<bar>x\<bar>" and "\<bar>x\<bar> < 2 powi (e + 1)"
  shows "binade x = e"
proof -
  have "(0::real) < 2 powi e" by simp
  then have pos: "0 < \<bar>x\<bar>"
    using assms(1) by linarith
  have "2 powr (of_int e) \<le> \<bar>x\<bar>"
    using assms(1) by (simp add: powr_real_of_int')
  then have a: "of_int e \<le> log 2 \<bar>x\<bar>"
    using pos by (simp add: powr_le_iff)
  have "\<bar>x\<bar> < 2 powr (of_int (e + 1))"
    using assms(2) unfolding powr_powi .
  then have b: "log 2 \<bar>x\<bar> < of_int (e + 1)"
    using pos by (simp add: less_powr_iff)
  show ?thesis
    unfolding binade_def using a b by linarith
qed







text \<open>Evaluating a rounding: name the binade.\<close>

lemma rnd64_eval:
  assumes "2 powi e \<le> \<bar>x\<bar>" and "\<bar>x\<bar> < 2 powi (e + 1)"
  shows "rnd64 x = of_int (round_half_even (x / 2 powi (e - 52))) * 2 powi (e - 52)"
proof -
  have "(0::real) < 2 powi e" by simp
  then have "0 < \<bar>x\<bar>"
    using assms(1) by linarith
  then have "x \<noteq> 0" by simp
  then show ?thesis
    using binade_unique [OF assms] by (simp add: rnd64_def)
qed

lemma rnd64_zero [simp]: "rnd64 0 = 0"
  by (simp add: rnd64_def)

lemma rnd64_one [simp]: "rnd64 1 = 1"
  by (simp add: rnd64_eval [of 0] round_half_even_def power_int_minus)

lemma rnd64_two [simp]: "rnd64 2 = 2"
  by (simp add: rnd64_eval [of 1] round_half_even_def power_int_minus)

lemma rnd64_literals:
  "rnd64 (9 / 10) = 8106479329266893 / 2 ^ 53"
  "rnd64 (4 / 5) = 7205759403792794 / 2 ^ 53"
  "rnd64 (7 / 10) = 6305039478318694 / 2 ^ 53"
  by (simp_all add: rnd64_eval [of "- 1"] round_half_even_def power_int_minus)


section \<open>Facts about the sort contract and the search statement\<close>

lemma sql_order_by_pg_stable: "sql_order_by pg_stable"
  unfolding sql_order_by_def
proof (intro allI)
  fix key :: "document \<Rightarrow> float8" and bound :: nat and rows :: "document list"
  have "mset (sort_key key rows) = mset rows \<and> sorted (map key (sort_key key rows)) \<and>
      take bound (order_by pg_stable key bound rows) = take bound (sort_key key rows)"
    by (simp add: pg_stable_def)
  then show "\<exists>arranged. mset arranged = mset rows \<and> sorted (map key arranged) \<and>
      take bound (order_by pg_stable key bound rows) = take bound arranged"
    by blast
qed

text \<open>
  The shape of every successful search: the rows above the threshold, arranged with
  ascending distance, cut at the limit, each with its similarity.
\<close>

lemma search_result_shape:
  assumes "sql_order_by pg"
    and "similarity_query pg db q limit threshold = Inr result"
  shows "\<exists>arranged.
      mset arranged =
        mset (filter (\<lambda>d. fsub (Num 1) (cosine_distance pg (embedding d) q) > threshold)
               (documents db)) \<and>
      sorted (map (\<lambda>d. cosine_distance pg (embedding d) q) arranged) \<and>
      get_similar_documents pg db q limit threshold =
        map (\<lambda>d. row_dict (d, fsub (Num 1) (cosine_distance pg (embedding d) q)))
          (take (nat limit) arranged)"
proof -
  let ?key = "\<lambda>d. cosine_distance pg (embedding d) q"
  let ?kept = "filter (\<lambda>d. fsub (Num 1) (?key d) > threshold) (documents db)"
  obtain arranged where a: "mset arranged = mset ?kept" "sorted (map ?key arranged)"
    "take (nat limit) (order_by pg ?key (nat limit) ?kept) = take (nat limit) arranged"
    using assms(1) unfolding sql_order_by_def by blast
  have "result = map (\<lambda>d. (d, fsub (Num 1) (?key d)))
      (take (nat limit) (order_by pg ?key (nat limit) ?kept))"
    using assms(2) by (simp add: similarity_query_def split: if_splits)
  then have "get_similar_documents pg db q limit threshold =
      map (\<lambda>d. row_dict (d, fsub (Num 1) (?key d))) (take (nat limit) arranged)"
    using assms(2) a(3) by (simp add: get_similar_documents_def)
  with a(1,2) show ?thesis by blast
qed

lemma fsub_one_NaN [simp]: "fsub (Num 1) NaN = NaN"
  by (simp add: fsub_def)

lemma fsub_one_Num [simp]: "fsub (Num 1) (Num x) = Num (rnd64 (1 - x))"
  by (simp add: fsub_def)

lemma similarity_row_dict [simp]: "similarity (row_dict (d, s)) = s"
  by (simp add: row_dict_def)


section \<open>Facts about the reference instances\<close>

lemma vector_lengths:
  "length unit_vector = 1536" "length orthogonal_vector = 1536" "length zero_vector = 1536"
  by (simp_all add: unit_vector_def orthogonal_vector_def zero_vector_def)

lemma unit_vector_nonempty: "unit_vector \<noteq> []"
  by (simp add: unit_vector_def)

lemma distance_unit_unit: "pgvector_cosine_distance unit_vector unit_vector = Num 0"
  by (simp add: pgvector_cosine_distance_def unit_vector_def sum_list_replicate)



lemma sample_db_eval:
  "sample_db =
     \<lparr>connected = True,
      documents =
        [\<lparr>doc_id = 1, filename = ''c.txt'', content = ''gamma'',
          doc_metadata = Map.empty, embedding = orthogonal_vector\<rparr>,
         \<lparr>doc_id = 2, filename = ''b.txt'', content = ''beta'',
          doc_metadata = Map.empty, embedding = orthogonal_vector\<rparr>,
         \<lparr>doc_id = 3, filename = ''a.txt'', content = ''alpha'',
          doc_metadata = Map.empty, embedding = unit_vector\<rparr>],
      next_id = 4\<rparr>"
  by (simp add: sample_db_def store_document_def insert_document_def column_text_def
      empty_db_def EMBEDDING_DIM_def vector_lengths)

lemma ingest_one:
  "connected db \<Longrightarrow>
   process_and_store_document simple_services db text fname None =
     (True,
      db\<lparr>documents := documents db @
            [\<lparr>doc_id = next_id db, filename = fname, content = text,
              doc_metadata = default_metadata fname 0 1 text, embedding = unit_vector\<rparr>],
         next_id := next_id db + 1\<rparr>)"
  by (simp add: process_and_store_document_def process_document_def chunk_text_def
      text_splitter_init_def generate_embeddings_batch_def simple_services_def enumerate_eq_zip
      store_document_def insert_document_def column_text_def EMBEDDING_DIM_def vector_lengths
      default_metadata_def)

lemma tie_db_eval:
  "tie_db =
     \<lparr>connected = True,
      documents =
        [\<lparr>doc_id = 1, filename = ''a.txt'', content = ''first'',
          doc_metadata = default_metadata ''a.txt'' 0 1 ''first'', embedding = unit_vector\<rparr>,
         \<lparr>doc_id = 2, filename = ''b.txt'', content = ''second'',
          doc_metadata = default_metadata ''b.txt'' 0 1 ''second'', embedding = unit_vector\<rparr>],
      next_id = 3\<rparr>"
  by (simp add: tie_db_def empty_db_def ingest_one)

lemma five_tied_db_eval:
  "five_tied_db =
     \<lparr>connected = True,
      documents =
        [\<lparr>doc_id = 1, filename = ''a.txt'', content = ''first'',
          doc_metadata = default_metadata ''a.txt'' 0 1 ''first'', embedding = unit_vector\<rparr>,
         \<lparr>doc_id = 2, filename = ''b.txt'', content = ''second'',
          doc_metadata = default_metadata ''b.txt'' 0 1 ''second'', embedding = unit_vector\<rparr>,
         \<lparr>doc_id = 3, filename = ''c.txt'', content = ''third'',
          doc_metadata = default_metadata ''c.txt'' 0 1 ''third'', embedding = unit_vector\<rparr>,
         \<lparr>doc_id = 4, filename = ''d.txt'', content = ''fourth'',
          doc_metadata = default_metadata ''d.txt'' 0 1 ''fourth'', embedding = unit_vector\<rparr>,
         \<lparr>doc_id = 5, filename = ''e.txt'', content = ''fifth'',
          doc_metadata = default_metadata ''e.txt'' 0 1 ''fifth'', embedding = unit_vector\<rparr>],
      next_id = 6\<rparr>"
  by (simp add: five_tied_db_def tie_db_eval ingest_one)


lemma threshold_07: "double (7 / 10) = Num (6305039478318694 / 2 ^ 53)"
  by (simp add: double_def rnd64_literals)


lemma tie_search:
  "map doc_id (get_similar_documents pg_stable tie_db unit_vector 5 (double (7 / 10))) = [1, 2]"
  "map similarity (get_similar_documents pg_stable tie_db unit_vector 5 (double (7 / 10)))
     = [Num 1, Num 1]"
  by (simp_all add: tie_db_eval get_similar_documents_def similarity_query_def pg_stable_def
      vector_lengths unit_vector_nonempty distance_unit_unit row_dict_def threshold_07)


section \<open>Search: ranking, threshold and limit\<close>





section \<open>Search: chunks of equal similarity\<close>

lemma arranged_keys_unique:
  assumes "mset arranged = mset rows" and "sorted (map key arranged)"
  shows "map key arranged = sort (map key rows)"
proof -
  have "mset (map key arranged) = mset (map key rows)"
    using assms(1) by (metis mset_map)
  then show ?thesis
    using assms(2) by (metis properties_for_sort)
qed

text \<open>
  C8, as stated, fails: the statement orders by distance only. The five chunks of
  \<open>five_tied_db\<close> were inserted in the order of their ids and have the same similarity to
  the query; with limit 2 PostgreSQL's bounded heap sort returns chunk 2 before chunk 1.
\<close>

theorem equal_similarity_higher_id_first:
  "map doc_id (get_similar_documents postgres five_tied_db unit_vector 2 (double (7 / 10)))
     = [2, 1] \<and>
   map similarity (get_similar_documents postgres five_tied_db unit_vector 2 (double (7 / 10)))
     = [Num 1, Num 1]"
  by (simp add: five_tied_db_eval get_similar_documents_def similarity_query_def postgres_def
      tuplesort_def put_bounded_def heap_insert_def sift_up.simps sift_down.simps
      sort_bounded_heap.simps Let_def vector_lengths unit_vector_nonempty distance_unit_unit
      row_dict_def threshold_07)

text \<open>
  C8, amended: the search does not order chunks of equal similarity by id. The
  statement sorts by distance alone, so what is determined is the sequence of similarity
  values of the result, whatever the sort; the order among chunks of equal distance is
  the sort's: every arrangement of the chunks above the threshold in which the distances
  ascend is, cut at the limit, the result under a sort that meets the \<^verbatim>\<open>ORDER BY\<close>
  contract.
\<close>

theorem ties_left_to_the_sort:
  assumes "sql_order_by pg"
  shows "(\<forall>pg'. sql_order_by pg' \<and> cosine_distance pg' = cosine_distance pg \<longrightarrow>
            map similarity (get_similar_documents pg' db q limit threshold) =
            map similarity (get_similar_documents pg db q limit threshold)) \<and>
         (\<forall>arranged result.
            similarity_query pg db q limit threshold = Inr result \<and>
            mset arranged =
              mset (filter (\<lambda>d. fsub (Num 1) (cosine_distance pg (embedding d) q) > threshold)
                     (documents db)) \<and>
            sorted (map (\<lambda>d. cosine_distance pg (embedding d) q) arranged) \<longrightarrow>
            (\<exists>pg'. sql_order_by pg' \<and> cosine_distance pg' = cosine_distance pg \<and>
               get_similar_documents pg' db q limit threshold =
                 map (\<lambda>d. row_dict (d, fsub (Num 1) (cosine_distance pg (embedding d) q)))
                   (take (nat limit) arranged)))"
proof (intro conjI allI impI)
  let ?key = "\<lambda>d. cosine_distance pg (embedding d) q"
  let ?kept = "filter (\<lambda>d. fsub (Num 1) (?key d) > threshold) (documents db)"
  {
    fix pg' assume pg': "sql_order_by pg' \<and> cosine_distance pg' = cosine_distance pg"
    show "map similarity (get_similar_documents pg' db q limit threshold) =
          map similarity (get_similar_documents pg db q limit threshold)"
    proof (cases "similarity_query pg db q limit threshold")
      case (Inl e)
      then have "similarity_query pg' db q limit threshold = Inl e"
        using pg' by (simp add: similarity_query_def split: if_splits)
      with Inl show ?thesis by (simp add: get_similar_documents_def)
    next
      case (Inr result)
      then obtain result' where Inr': "similarity_query pg' db q limit threshold = Inr result'"
        using pg' by (simp add: similarity_query_def split: if_splits)
      from search_result_shape [OF assms Inr] obtain arranged where
        a: "mset arranged = mset ?kept" "sorted (map ?key arranged)"
        "get_similar_documents pg db q limit threshold =
           map (\<lambda>d. row_dict (d, fsub (Num 1) (?key d))) (take (nat limit) arranged)"
        by blast
      from search_result_shape [OF conjunct1 [OF pg'] Inr'] obtain arranged' where
        a': "mset arranged' = mset ?kept" "sorted (map ?key arranged')"
        "get_similar_documents pg' db q limit threshold =
           map (\<lambda>d. row_dict (d, fsub (Num 1) (?key d))) (take (nat limit) arranged')"
        using pg' by auto
      have "map ?key arranged = map ?key arranged'"
        using arranged_keys_unique [OF a(1,2)] arranged_keys_unique [OF a'(1,2)] by simp
      then have "map ?key (take (nat limit) arranged) = map ?key (take (nat limit) arranged')"
        by (simp add: take_map [symmetric])
      then have "map (fsub (Num 1)) (map ?key (take (nat limit) arranged)) =
          map (fsub (Num 1)) (map ?key (take (nat limit) arranged'))"
        by (rule arg_cong)
      then have "map (\<lambda>d. fsub (Num 1) (?key d)) (take (nat limit) arranged) =
          map (\<lambda>d. fsub (Num 1) (?key d)) (take (nat limit) arranged')"
        by (simp add: comp_def)
      then show ?thesis
        unfolding a(3) a'(3) by (simp add: comp_def)
    qed
  }
  {
    fix arranged result
    assume h: "similarity_query pg db q limit threshold = Inr result \<and>
        mset arranged = mset ?kept \<and> sorted (map ?key arranged)"
    define pg' where "pg' = pg\<lparr>order_by := (\<lambda>key' bound rows.
        if mset rows = mset arranged \<and> sorted (map key' arranged) then arranged
        else sort_key key' rows)\<rparr>"
    have dist: "cosine_distance pg' = cosine_distance pg"
      by (simp add: pg'_def)
    have conforming: "sql_order_by pg'"
      unfolding sql_order_by_def
    proof (intro allI)
      fix key' :: "document \<Rightarrow> float8" and bound :: nat and rows :: "document list"
      show "\<exists>arr. mset arr = mset rows \<and> sorted (map key' arr) \<and>
          take bound (order_by pg' key' bound rows) = take bound arr"
      proof (cases "mset rows = mset arranged \<and> sorted (map key' arranged)")
        case True
        then have "mset arranged = mset rows \<and> sorted (map key' arranged) \<and>
            take bound (order_by pg' key' bound rows) = take bound arranged"
          by (simp add: pg'_def)
        then show ?thesis by blast
      next
        case False
        then have "mset (sort_key key' rows) = mset rows \<and>
            sorted (map key' (sort_key key' rows)) \<and>
            take bound (order_by pg' key' bound rows) = take bound (sort_key key' rows)"
          by (auto simp: pg'_def)
        then show ?thesis by blast
      qed
    qed
    have "order_by pg' ?key (nat limit) ?kept = arranged"
      using h by (simp add: pg'_def)
    moreover have "similarity_query pg' db q limit threshold =
        Inr (map (\<lambda>d. (d, fsub (Num 1) (?key d)))
              (take (nat limit) (order_by pg' ?key (nat limit) ?kept)))"
      using h dist by (simp add: similarity_query_def split: if_splits)
    ultimately have "get_similar_documents pg' db q limit threshold =
        map (\<lambda>d. row_dict (d, fsub (Num 1) (?key d))) (take (nat limit) arranged)"
      by (simp add: get_similar_documents_def)
    with conforming dist
    show "\<exists>pg'. sql_order_by pg' \<and> cosine_distance pg' = cosine_distance pg \<and>
        get_similar_documents pg' db q limit threshold =
          map (\<lambda>d. row_dict (d, fsub (Num 1) (?key d))) (take (nat limit) arranged)"
      by blast
  }
qed

theorem ties_left_to_the_sort_witness:
  "sql_order_by pg_stable \<and>
   map doc_id (get_similar_documents pg_stable tie_db unit_vector 5 (double (7 / 10))) = [1, 2] \<and>
   (\<exists>pg'. sql_order_by pg' \<and> cosine_distance pg' = cosine_distance pg_stable \<and>
      map doc_id (get_similar_documents pg' tie_db unit_vector 5 (double (7 / 10))) = [2, 1] \<and>
      map similarity (get_similar_documents pg' tie_db unit_vector 5 (double (7 / 10))) =
      map similarity (get_similar_documents pg_stable tie_db unit_vector 5 (double (7 / 10))))"
proof -
  let ?key = "\<lambda>d. cosine_distance pg_stable (embedding d) unit_vector"
  let ?kept = "filter (\<lambda>d. fsub (Num 1) (?key d) > double (7 / 10)) (documents tie_db)"
  have kept: "?kept = documents tie_db"
    by (simp add: tie_db_eval pg_stable_def distance_unit_unit threshold_07)
  obtain result where accepted:
    "similarity_query pg_stable tie_db unit_vector 5 (double (7 / 10)) = Inr result"
    by (simp add: similarity_query_def tie_db_eval vector_lengths unit_vector_nonempty)
  have perm: "mset (rev (documents tie_db)) = mset ?kept"
    unfolding kept by simp
  have asc: "sorted (map ?key (rev (documents tie_db)))"
    by (simp add: tie_db_eval pg_stable_def distance_unit_unit)
  note sort = ties_left_to_the_sort [OF sql_order_by_pg_stable,
      of tie_db unit_vector 5 "double (7 / 10)"]
  note arrangement = sort [THEN conjunct2, THEN spec, THEN spec, THEN mp,
      OF conjI [OF accepted conjI [OF perm asc]]]
  then obtain pg' where pg': "sql_order_by pg'" "cosine_distance pg' = cosine_distance pg_stable"
    "get_similar_documents pg' tie_db unit_vector 5 (double (7 / 10)) =
       map (\<lambda>d. row_dict (d, fsub (Num 1) (?key d))) (take (nat 5) (rev (documents tie_db)))"
    by (elim exE conjE)
  note same = sort [THEN conjunct1, THEN spec, THEN mp, OF conjI [OF pg'(1) pg'(2)]]
  have ids: "map doc_id (get_similar_documents pg' tie_db unit_vector 5 (double (7 / 10))) = [2, 1]"
    unfolding pg'(3) by (simp add: tie_db_eval row_dict_def)
  show ?thesis
  proof (intro conjI)
    show "sql_order_by pg_stable" by (rule sql_order_by_pg_stable)
    show "map doc_id (get_similar_documents pg_stable tie_db unit_vector 5 (double (7 / 10)))
        = [1, 2]"
      by (rule tie_search(1))
    show "\<exists>pg'. sql_order_by pg' \<and> cosine_distance pg' = cosine_distance pg_stable \<and>
      map doc_id (get_similar_documents pg' tie_db unit_vector 5 (double (7 / 10))) = [2, 1] \<and>
      map similarity (get_similar_documents pg' tie_db unit_vector 5 (double (7 / 10))) =
      map similarity (get_similar_documents pg_stable tie_db unit_vector 5 (double (7 / 10)))"
      using pg'(1,2) ids same by (intro exI [of _ pg'] conjI)
  qed
qed

section \<open>Search: failures and empty results\<close>

lemma empty_search_result:
  assumes "sql_order_by pg" and "similarity_query pg db q limit threshold = Inr result"
  shows "get_similar_documents pg db q limit threshold = [] \<longleftrightarrow>
         limit = 0 \<or>
         (\<forall>d \<in> set (documents db).
            \<not> fsub (Num 1) (cosine_distance pg (embedding d) q) > threshold)"
proof -
  let ?key = "\<lambda>d. cosine_distance pg (embedding d) q"
  let ?kept = "filter (\<lambda>d. fsub (Num 1) (?key d) > threshold) (documents db)"
  have lim: "0 \<le> limit"
    using assms(2) by (simp add: similarity_query_def split: if_splits)
  from search_result_shape [OF assms] obtain arranged where
    a: "mset arranged = mset ?kept"
    and r: "get_similar_documents pg db q limit threshold =
      map (\<lambda>d. row_dict (d, fsub (Num 1) (?key d))) (take (nat limit) arranged)"
    by blast
  have "arranged = [] \<longleftrightarrow> ?kept = []"
    using a by (metis mset_zero_iff)
  then have "get_similar_documents pg db q limit threshold = [] \<longleftrightarrow>
      nat limit = 0 \<or> ?kept = []"
    unfolding r by simp
  then show ?thesis
    using lim by (auto simp: filter_empty_conv)
qed

text \<open>
  C5, as stated, fails: with the connection lost the search statement raises, and
  \<^verbatim>\<open>get_similar_documents\<close> turns the failure into the empty list; \<^verbatim>\<open>answer_question\<close>
  then gives the no-information answer with no error in it, although both chunks of the
  store clear the threshold once the store can be reached.
\<close>

theorem store_failure_looks_like_no_match:
  "similarity_query pg_stable unreachable_db unit_vector 5 (double (7 / 10)) =
     Inl OperationalError \<and>
   get_similar_documents pg_stable unreachable_db unit_vector 5 (double (7 / 10)) = [] \<and>
   answer_question simple_services pg_stable unreachable_db ''why?'' 5 =
     (no_information_response, []) \<and>
   map doc_id (get_similar_documents pg_stable tie_db unit_vector 5 (double (7 / 10))) = [1, 2]"
  using tie_search(1)
  by (simp add: unreachable_db_def get_similar_documents_def similarity_query_def
      answer_question_def generate_embedding_def simple_services_def)

text \<open>
  C5, amended: a failure of the search statement is turned into the empty list; a search
  that succeeds is empty exactly when the limit is 0 or no chunk clears the threshold; a
  failure of the embedding provider is surfaced, as a response that carries the error and
  differs from the no-information answer.
\<close>

theorem store_failure_returns_empty:
  "(similarity_query pg db q limit threshold = Inl e \<longrightarrow>
      get_similar_documents pg db q limit threshold = []) \<and>
   (sql_order_by pg \<and> similarity_query pg db q limit threshold = Inr result \<longrightarrow>
      (get_similar_documents pg db q limit threshold = [] \<longleftrightarrow>
         limit = 0 \<or>
         (\<forall>d \<in> set (documents db).
            \<not> fsub (Num 1) (cosine_distance pg (embedding d) q) > threshold))) \<and>
   (generate_embedding svc question = Inl e \<longrightarrow>
      answer_question svc pg db question top_k = (error_response e, []) \<and>
      error_response e \<noteq> no_information_response)"
  using empty_search_result [of pg db q limit threshold result]
  by (simp add: get_similar_documents_def answer_question_def error_response_def
      no_information_response_def)

theorem store_failure_returns_empty_witness:
  "generate_embedding failing_provider ''why?'' = Inl ProviderError \<and>
   answer_question failing_provider pg_stable tie_db ''why?'' 5 =
     (error_response ProviderError, []) \<and>
   error_response ProviderError \<noteq> no_information_response \<and>
   similarity_query pg_stable unreachable_db unit_vector 5 (double (7 / 10)) =
     Inl OperationalError \<and>
   get_similar_documents pg_stable unreachable_db unit_vector 5 (double (7 / 10)) = []"
proof -
  have p: "generate_embedding failing_provider ''why?'' = Inl ProviderError"
    by (simp add: generate_embedding_def failing_provider_def simple_services_def)
  have s: "similarity_query pg_stable unreachable_db unit_vector 5 (double (7 / 10)) =
      Inl OperationalError"
    by (simp add: similarity_query_def unreachable_db_def)
  show ?thesis
    using p s
      store_failure_returns_empty [of pg_stable unreachable_db unit_vector 5 "double (7 / 10)"
        OperationalError]
      store_failure_returns_empty [of pg_stable tie_db unit_vector 5 "double (7 / 10)"
        ProviderError _ failing_provider "''why?''" 5]
    by simp
qed

section \<open>Question answering: confidence and the no-context path\<close>








section \<open>Ingestion: the stored filename\<close>

lemma process_document_filename:
  assumes "process_document svc text fname = Inr processed_chunks"
  shows "\<forall>c \<in> set processed_chunks. chunk_metadata c ''filename'' = Some (JStr fname)"
  using assms
  by (auto simp: process_document_def default_metadata_def split: sum.splits)

lemma store_document_documents:
  "documents (snd (store_document db fname text emb (Some m))) = documents db \<or>
   (\<exists>name. column_text fname = Inr name \<and>
      documents (snd (store_document db fname text emb (Some m))) =
        documents db @ [\<lparr>doc_id = next_id db, filename = name, content = text,
                         doc_metadata = m, embedding = emb\<rparr>])"
  by (simp add: store_document_def insert_document_def split: sum.splits)

lemma store_chunks_documents:
  assumes "\<forall>c \<in> set cs. chunk_metadata c ''filename'' = Some (JStr fname)"
  shows "fst (store_chunks db meta cs) = None \<and>
         (\<exists>new. documents (snd (store_chunks db meta cs)) = documents db @ new \<and>
            (\<forall>d \<in> set new.
               (\<exists>v. doc_metadata d ''filename'' = Some v \<and>
                    column_text v = Inr (filename d) \<and>
                    v = (case meta of
                           None \<Rightarrow> JStr fname
                         | Some m \<Rightarrow> (case m ''filename'' of
                                        None \<Rightarrow> JStr fname
                                      | Some v' \<Rightarrow> v'))) \<and>
               (\<forall>m. meta = Some m \<longrightarrow> (\<forall>k \<in> dom m. doc_metadata d k = m k))))"
proof -
  define P where "P = (\<lambda>d::document.
               (\<exists>v. doc_metadata d ''filename'' = Some v \<and>
                    column_text v = Inr (filename d) \<and>
                    v = (case meta of
                           None \<Rightarrow> JStr fname
                         | Some m \<Rightarrow> (case m ''filename'' of
                                        None \<Rightarrow> JStr fname
                                      | Some v' \<Rightarrow> v'))) \<and>
               (\<forall>m. meta = Some m \<longrightarrow> (\<forall>k \<in> dom m. doc_metadata d k = m k)))"
  have "fst (store_chunks db meta cs) = None \<and>
         (\<exists>new. documents (snd (store_chunks db meta cs)) = documents db @ new \<and>
            (\<forall>d \<in> set new. P d))"
    using assms
  proof (induction cs arbitrary: db)
    case Nil
    then show ?case by simp
  next
    case (Cons c cs)
    let ?updated = "case meta of None \<Rightarrow> c
                    | Some m \<Rightarrow> c\<lparr>chunk_metadata := chunk_metadata c ++ m\<rparr>"
    let ?f = "case meta of None \<Rightarrow> JStr fname
              | Some m \<Rightarrow> (case m ''filename'' of None \<Rightarrow> JStr fname | Some v \<Rightarrow> v)"
    let ?doc = "\<lambda>name. \<lparr>doc_id = next_id db, filename = name, content = chunk_content ?updated,
            doc_metadata = chunk_metadata ?updated, embedding = chunk_embedding ?updated\<rparr>"
    have c: "chunk_metadata c ''filename'' = Some (JStr fname)"
      using Cons.prems by simp
    have look: "chunk_metadata ?updated ''filename'' = Some ?f"
      using c by (simp add: map_add_def split: option.splits)
    have merged: "\<forall>m. meta = Some m \<longrightarrow> (\<forall>k \<in> dom m. chunk_metadata ?updated k = m k)"
      by (auto simp: map_add_def split: option.splits)
    have P_doc: "P (?doc name)" if "column_text ?f = Inr name" for name
      unfolding P_def using look merged that by simp
    let ?db1 = "snd (store_document db ?f (chunk_content ?updated) (chunk_embedding ?updated)
                   (Some (chunk_metadata ?updated)))"
    have step: "store_chunks db meta (c # cs) = store_chunks ?db1 meta cs"
      using look by (simp add: Let_def)
    from Cons.IH [of ?db1] Cons.prems
    obtain new where rest: "fst (store_chunks ?db1 meta cs) = None"
      "documents (snd (store_chunks ?db1 meta cs)) = documents ?db1 @ new"
      "\<forall>d \<in> set new. P d"
      by auto
    have "\<exists>first. documents ?db1 = documents db @ first \<and> (\<forall>d \<in> set first. P d)"
    proof (cases "documents ?db1 = documents db")
      case True
      then have "documents ?db1 = documents db @ [] \<and> (\<forall>d \<in> set []. P d)" by simp
      then show ?thesis by blast
    next
      case False
      then obtain name where name: "column_text ?f = Inr name"
        "documents ?db1 = documents db @ [?doc name]"
        using store_document_documents [of db ?f "chunk_content ?updated"
            "chunk_embedding ?updated" "chunk_metadata ?updated"]
        by blast
      then have "documents ?db1 = documents db @ [?doc name] \<and> (\<forall>d \<in> set [?doc name]. P d)"
        using P_doc [OF name(1)] by simp
      then show ?thesis by blast
    qed
    then obtain first where first: "documents ?db1 = documents db @ first"
      "\<forall>d \<in> set first. P d"
      by blast
    have "documents (snd (store_chunks db meta (c # cs))) = documents db @ (first @ new)"
      using step rest(2) first(1) by simp
    moreover have "\<forall>d \<in> set (first @ new). P d"
      using first(2) rest(3) by auto
    ultimately show ?case
      using step rest(1) by metis
  qed
  then show ?thesis unfolding P_def .
qed

lemma decimal_digit: "decimal 5 = ''5''"
  by (simp add: decimal.simps [of 5])

text \<open>
  C3, as stated, fails: the filename handed to the store is read from the chunk's
  metadata after the caller's metadata has been merged into it, so a caller's
  \<^verbatim>\<open>filename\<close> entry replaces the filename argument, in the metadata and in the
  \<^verbatim>\<open>filename\<close> column.
\<close>

theorem caller_filename_overwrites_default:
  "process_and_store_document simple_services empty_db ''hello'' ''a.txt''
     (Some [''filename'' \<mapsto> JStr ''b.txt'']) =
   (True,
    \<lparr>connected = True,
     documents =
       [\<lparr>doc_id = 1, filename = ''b.txt'', content = ''hello'',
         doc_metadata =
           default_metadata ''a.txt'' 0 1 ''hello'' ++ [''filename'' \<mapsto> JStr ''b.txt''],
         embedding = unit_vector\<rparr>],
     next_id = 2\<rparr>)"
  by (simp add: process_and_store_document_def process_document_def chunk_text_def
      text_splitter_init_def generate_embeddings_batch_def simple_services_def enumerate_eq_zip
      store_document_def insert_document_def column_text_def empty_db_def EMBEDDING_DIM_def
      vector_lengths default_metadata_def)

text \<open>
  C3, amended: the caller's metadata is merged into each chunk's default metadata and
  may overwrite any default key, \<^verbatim>\<open>filename\<close> included. Every chunk an ingest call
  stores carries each entry of the caller's metadata, and its \<^verbatim>\<open>filename\<close> column holds
  the \<^verbatim>\<open>filename\<close> entry of its merged metadata as text (a string as it is, an integer as
  its decimal text, while the metadata keeps the entry as given): the caller's entry when
  there is one, the filename argument otherwise.
\<close>

theorem ingest_filename_from_merged_metadata:
  "\<exists>new. documents (snd (process_and_store_document svc db text fname meta)) =
            documents db @ new \<and>
     (\<forall>d \<in> set new.
        (\<exists>v. doc_metadata d ''filename'' = Some v \<and>
             column_text v = Inr (filename d) \<and>
             v = (case meta of
                    None \<Rightarrow> JStr fname
                  | Some m \<Rightarrow> (case m ''filename'' of
                                 None \<Rightarrow> JStr fname
                               | Some v' \<Rightarrow> v'))) \<and>
        (\<forall>m. meta = Some m \<longrightarrow> (\<forall>k \<in> dom m. doc_metadata d k = m k)))"
proof (cases "process_document svc text fname")
  case (Inl e)
  then have "documents (snd (process_and_store_document svc db text fname meta)) =
      documents db @ []"
    by (simp add: process_and_store_document_def)
  then show ?thesis by (metis empty_iff list.set(1))
next
  case (Inr processed_chunks)
  have snd_eq: "snd (process_and_store_document svc db text fname meta) =
      snd (store_chunks db meta processed_chunks)"
    using Inr by (simp add: process_and_store_document_def split: prod.splits option.splits)
  show ?thesis
    unfolding snd_eq
    using store_chunks_documents [OF process_document_filename [OF Inr], of db meta]
    by blast
qed

theorem ingest_filename_from_merged_metadata_witness:
  "map filename (documents (snd (process_and_store_document simple_services empty_db
      ''hello'' ''a.txt'' (Some [''filename'' \<mapsto> JInt 5, ''file_size'' \<mapsto> JInt 11])))) = [''5''] \<and>
   map (\<lambda>d. (doc_metadata d ''filename'', doc_metadata d ''file_size''))
     (documents (snd (process_and_store_document simple_services empty_db
      ''hello'' ''a.txt'' (Some [''filename'' \<mapsto> JInt 5, ''file_size'' \<mapsto> JInt 11])))) =
     [(Some (JInt 5), Some (JInt 11))]"
proof -
  let ?meta = "[''filename'' \<mapsto> JInt 5, ''file_size'' \<mapsto> JInt 11]"
  let ?docs = "documents (snd (process_and_store_document simple_services empty_db
      ''hello'' ''a.txt'' (Some ?meta)))"
  have docs: "length ?docs = 1"
    by (simp add: process_and_store_document_def process_document_def chunk_text_def
      text_splitter_init_def generate_embeddings_batch_def simple_services_def enumerate_eq_zip
      store_document_def insert_document_def column_text_def empty_db_def EMBEDDING_DIM_def
      vector_lengths default_metadata_def)
  obtain new where new: "?docs = documents empty_db @ new"
    "\<forall>d \<in> set new.
        (\<exists>v. doc_metadata d ''filename'' = Some v \<and> column_text v = Inr (filename d) \<and>
             v = (case Some ?meta of
                    None \<Rightarrow> JStr ''a.txt''
                  | Some m \<Rightarrow> (case m ''filename'' of
                                 None \<Rightarrow> JStr ''a.txt''
                               | Some v' \<Rightarrow> v'))) \<and>
        (\<forall>m. Some ?meta = Some m \<longrightarrow> (\<forall>k \<in> dom m. doc_metadata d k = m k))"
    using ingest_filename_from_merged_metadata
      [of simple_services empty_db "''hello''" "''a.txt''" "Some ?meta"]
    by blast
  have "length new = 1" using docs new(1) by (simp add: empty_db_def)
  then obtain d where d: "new = [d]" by (cases new) auto
  have name: "doc_metadata d ''filename'' = Some (JInt 5)" "column_text (JInt 5) = Inr (filename d)"
    using new(2) d by auto
  have "''file_size'' \<in> dom ?meta" by simp
  then have "doc_metadata d ''file_size'' = ?meta ''file_size''"
    using new(2) d by auto
  then have fsize: "doc_metadata d ''file_size'' = Some (JInt 11)" by simp
  have "filename d = ''5''"
    using name(2) by (simp add: column_text_def str_of_int_def decimal_digit)
  then show ?thesis
    using new(1) d name(1) fsize by (simp add: empty_db_def)
qed

section \<open>Deletion by filename\<close>

lemma delete_document_removes_matching:
  "(connected db \<longrightarrow>
      delete_document db fname =
        (True, db\<lparr>documents := filter (\<lambda>d. filename d \<noteq> fname) (documents db)\<rparr>) \<and>
      (\<forall>d \<in> set (documents (snd (delete_document db fname))). filename d \<noteq> fname)) \<and>
   (\<not> connected db \<longrightarrow> delete_document db fname = (False, db))"
  by (simp add: delete_document_def)

text \<open>
  C6 does not hold of the code: on a reachable store that holds no chunk of the filename,
  \<^verbatim>\<open>RAGPipeline.delete_document\<close> deletes nothing and returns \<^verbatim>\<open>True\<close>, where a missing
  filename is to be reported with \<^verbatim>\<open>False\<close> (as \<^verbatim>\<open>summarize_document\<close>, which runs the
  same query, reports a filename without chunks as a failure). The removal itself is as
  claimed (\<open>delete_document_removes_matching\<close>), and no error is raised.
\<close>

theorem delete_document_without_chunks_returns_true:
  "connected empty_db \<and> documents empty_db = [] \<and>
   delete_document empty_db ''missing.txt'' = (True, empty_db)"
  by (simp add: delete_document_def empty_db_def)

section \<open>Writing a record of the wrong dimension\<close>

text \<open>
  C7: writing a record whose embedding does not have the column's dimension fails: the
  insert raises, \<^verbatim>\<open>store_document\<close> rolls back and reports the failure (\<^verbatim>\<open>None\<close>
  instead of an id), and the store is unchanged, so the record count is what it was and
  no part of the record is kept.
\<close>

theorem store_document_wrong_dimension:
  assumes "length emb \<noteq> EMBEDDING_DIM"
  shows "(\<exists>e. insert_document db fname text emb
                (case meta of None \<Rightarrow> Map.empty | Some m \<Rightarrow> m) = Inl e) \<and>
         store_document db fname text emb meta = (None, db) \<and>
         length (documents (snd (store_document db fname text emb meta))) =
           length (documents db)"
  using assms by (simp add: store_document_def insert_document_def split: sum.splits)

theorem store_document_wrong_dimension_witness:
  "length [1, 2, 3 :: real] \<noteq> EMBEDDING_DIM \<and>
   store_document sample_db (JStr ''d.txt'') ''delta'' [1, 2, 3] None = (None, sample_db) \<and>
   length (documents (snd (store_document sample_db (JStr ''d.txt'') ''delta'' [1, 2, 3] None)))
     = 3"
proof -
  have d: "length [1, 2, 3 :: real] \<noteq> EMBEDDING_DIM"
    by (simp add: EMBEDDING_DIM_def)
  show ?thesis
    using d store_document_wrong_dimension [OF d, of sample_db "JStr ''d.txt''" "''delta''" None]
    by (simp add: sample_db_eval)
qed

section \<open>Chunking: overlap and chunk size\<close>

text \<open>
  C9, as stated, fails: with the overlap equal to the chunk size the splitter's
  constructor accepts the configuration and the call returns chunks.
\<close>

theorem chunk_text_equal_overlap_returns:
  "chunk_text simple_services ''hello'' 5 5 = Inr [''hello'']"
  by (simp add: chunk_text_def text_splitter_init_def simple_services_def)

text \<open>
  C9, amended: every call of the chunker with an overlap strictly greater than the chunk
  size fails with \<^verbatim>\<open>ValueError\<close> before any splitting; a call with the overlap equal to
  a positive chunk size is accepted and returns the splitter's chunks.
\<close>

theorem chunk_text_rejects_larger_overlap:
  "(chunk_overlap > chunk_size \<longrightarrow>
      chunk_text svc text chunk_size chunk_overlap = Inl ValueError) \<and>
   (0 < chunk_size \<and> chunk_overlap = chunk_size \<longrightarrow>
      chunk_text svc text chunk_size chunk_overlap =
        Inr (split_text svc chunk_size chunk_overlap text))"
  by (simp add: chunk_text_def text_splitter_init_def)

theorem chunk_text_rejects_larger_overlap_witness:
  "(10 :: int) > 5 \<and> chunk_text simple_services ''hello'' 5 10 = Inl ValueError"
  using chunk_text_rejects_larger_overlap [of 5 10 simple_services "''hello''"]
  by simp

section \<open>Properties of the cosine similarity\<close>




end
